theory Spec2Isabelle
  imports Complex_Main
begin

section \<open>The UniRef adapter of calour: \<open>uniref_calour/uniref_calour.py\<close>\<close>

text \<open>
  The module has one class, \<open>Uniref\<close>, with a constructor and two methods:
  \<open>get_seq_annotation_strings\<close> (one HTTP GET, then the formatting of the JSON answer
  into a list of entries) and \<open>show_annotation_info\<close> (opening a page in the browser).
  Everything the code does beyond computing a value is explicit here: exceptions are the
  \<open>Inl\<close> of a sum, the requests sent, the log lines written and the pages opened are
  appended to a \<open>world\<close> that every operation takes and returns, and the collaborators
  (\<open>requests.get\<close>, \<open>webbrowser.open\<close>, Python's \<open>str\<close>) are parameters.
\<close>

subsection \<open>Python values and exceptions\<close>

text \<open>
  The values the code handles: what \<open>res.json()\<close> can return (\<open>None\<close>, booleans,
  numbers, strings, lists, dictionaries with string keys) and what the code itself builds
  (tuples and lists of a dictionary and a string). A dictionary is kept as its items in
  insertion order; \<open>map_of\<close> looks a key up. A float is carried along and never computed
  with, except by \<open>%d\<close>. A string is the list of its characters: the code only
  concatenates strings and compares keys.
\<close>

datatype pyval =
    PNone
  | PBool bool
  | PInt int
  | PFloat real
  | PStr string
  | PList "pyval list"
  | PTuple "pyval list"
  | PDict "(string \<times> pyval) list"

text \<open>
  \<open>AttributeError name\<close> and \<open>KeyError key\<close> carry the name that was missing.
  \<open>Raised\<close> stands for whatever a collaborator raises (a transport failure of
  \<open>requests.get\<close>, a body that is not JSON, a failure of \<open>webbrowser.open\<close>).
\<close>

datatype error =
    AttributeError string
  | KeyError string
  | TypeError
  | Raised string

text \<open>\<open>obj[key]\<close> with a string key: only a dictionary can be subscripted by a string.\<close>

definition getitem :: "pyval \<Rightarrow> string \<Rightarrow> error + pyval" where
  "getitem obj key =
     (case obj of
        PDict items \<Rightarrow> (case map_of items key of None \<Rightarrow> Inl (KeyError key) | Some v \<Rightarrow> Inr v)
      | _ \<Rightarrow> Inl TypeError)"

text \<open>
  \<open>for x in obj\<close>: the elements of a list or tuple, the keys of a dictionary, the
  characters of a string; any other value is not iterable.
\<close>

definition iter :: "pyval \<Rightarrow> error + pyval list" where
  "iter obj =
     (case obj of
        PList xs \<Rightarrow> Inr xs
      | PTuple xs \<Rightarrow> Inr xs
      | PDict items \<Rightarrow> Inr (map (\<lambda>kv. PStr (fst kv)) items)
      | PStr s \<Rightarrow> Inr (map (\<lambda>c. PStr [c]) s)
      | _ \<Rightarrow> Inl TypeError)"

primrec substring :: "string \<Rightarrow> string \<Rightarrow> bool" where
  "substring k [] = (k = [])"
| "substring k (c # s) = (take (length k) (c # s) = k \<or> substring k s)"

text \<open>
  \<open>key in obj\<close> with a string key: a key of a dictionary, an element of a list or tuple,
  a substring of a string; any other value raises \<open>TypeError\<close>.
\<close>

definition contains :: "pyval \<Rightarrow> string \<Rightarrow> error + bool" where
  "contains obj key =
     (case obj of
        PDict items \<Rightarrow> Inr (key \<in> set (map fst items))
      | PList xs \<Rightarrow> Inr (PStr key \<in> set xs)
      | PTuple xs \<Rightarrow> Inr (PStr key \<in> set xs)
      | PStr s \<Rightarrow> Inr (substring key s)
      | _ \<Rightarrow> Inl TypeError)"

text \<open>
  \<open>fmt % v\<close> with one conversion in \<open>fmt\<close>: a tuple on the right is the argument list
  and must hold exactly one value; any other value is the single argument.
\<close>

fun percent_arg :: "pyval \<Rightarrow> error + pyval" where
  "percent_arg (PTuple [x]) = Inr x"
| "percent_arg (PTuple xs) = Inl TypeError"
| "percent_arg v = Inr v"

text \<open>
  \<open>json()\<close> decodes a body into \<open>None\<close>, booleans, numbers, strings, lists and
  dictionaries, never into a tuple.
\<close>

definition is_tuple :: "pyval \<Rightarrow> bool" where
  "is_tuple v = (case v of PTuple xs \<Rightarrow> True | _ \<Rightarrow> False)"

text \<open>
  \<open>str(v)\<close>: a string is itself; the text of every other value is left to the parameter
  \<open>str_of\<close> (Python's \<open>str\<close> on numbers, lists and dictionaries).
\<close>

definition py_str :: "(pyval \<Rightarrow> string) \<Rightarrow> pyval \<Rightarrow> string" where
  "py_str str_of v = (case v of PStr s \<Rightarrow> s | _ \<Rightarrow> str_of v)"

text \<open>\<open>(pre + '%s') % v\<close>.\<close>

definition format_s :: "(pyval \<Rightarrow> string) \<Rightarrow> string \<Rightarrow> pyval \<Rightarrow> error + string" where
  "format_s str_of pre v =
     (case percent_arg v of Inl e \<Rightarrow> Inl e | Inr x \<Rightarrow> Inr (pre @ py_str str_of x))"

fun decimal_nat :: "nat \<Rightarrow> string" where
  "decimal_nat n =
     (if n < 10 then [''0123456789'' ! n]
      else decimal_nat (n div 10) @ [''0123456789'' ! (n mod 10)])"

declare decimal_nat.simps [simp del]

definition decimal :: "int \<Rightarrow> string" where
  "decimal i = (if i < 0 then CHR ''-'' # decimal_nat (nat (- i)) else decimal_nat (nat i))"

text \<open>
  \<open>(pre + '%d') % v\<close>: an integer in decimal, a boolean as 1 or 0, a float truncated
  towards zero; any other argument raises \<open>TypeError\<close>.
\<close>

definition format_d :: "string \<Rightarrow> pyval \<Rightarrow> error + string" where
  "format_d pre v =
     (case percent_arg v of
        Inl e \<Rightarrow> Inl e
      | Inr x \<Rightarrow>
          (case x of
             PInt i \<Rightarrow> Inr (pre @ decimal i)
           | PBool b \<Rightarrow> Inr (pre @ (if b then ''1'' else ''0''))
           | PFloat r \<Rightarrow> Inr (pre @ decimal (if 0 \<le> r then \<lfloor>r\<rfloor> else \<lceil>r\<rceil>))
           | _ \<Rightarrow> Inl TypeError))"

text \<open>\<open>s + v\<close> with \<open>s\<close> a string: only a string can be concatenated to a string.\<close>

definition str_add :: "string \<Rightarrow> pyval \<Rightarrow> error + string" where
  "str_add s v = (case v of PStr t \<Rightarrow> Inr (s @ t) | _ \<Rightarrow> Inl TypeError)"

subsection \<open>The collaborators and the world\<close>

text \<open>
  A response object as \<open>requests.get\<close> returns it: its \<open>status_code\<close>, what calling
  \<open>json()\<close> on it gives (the decoded body, or the exception of a body that is not JSON),
  and \<open>attrs\<close>, its other attributes by name. The class \<open>requests.Response\<close> has the
  attributes \<open>status_code\<close>, \<open>headers\<close>, \<open>url\<close>, \<open>history\<close>, \<open>encoding\<close>, \<open>reason\<close>,
  \<open>cookies\<close>, \<open>elapsed\<close>, \<open>request\<close>, \<open>raw\<close>, the properties \<open>ok\<close>, \<open>content\<close>,
  \<open>text\<close>, \<open>links\<close>, \<open>next\<close>, \<open>apparent_encoding\<close>, \<open>is_redirect\<close>,
  \<open>is_permanent_redirect\<close> and no \<open>__getattr__\<close>: it has no attribute \<open>code\<close>.
\<close>

record response =
  status_code :: int
  json :: "error + pyval"
  attrs :: "(string \<times> pyval) list"

text \<open>\<open>res.name\<close> for an attribute other than \<open>status_code\<close> and \<open>json\<close>.\<close>

definition getattr :: "response \<Rightarrow> string \<Rightarrow> error + pyval" where
  "getattr res name =
     (case map_of (attrs res) name of None \<Rightarrow> Inl (AttributeError name) | Some v \<Rightarrow> Inr v)"

text \<open>A response of the class \<open>requests.Response\<close>: one without the attribute \<open>code\<close>.\<close>

definition requests_Response :: "response \<Rightarrow> bool" where
  "requests_Response res = (map_of (attrs res) ''code'' = None)"

datatype level = DEBUG | WARNING

text \<open>
  What the adapter does to its environment, in order: the URLs it sent a GET to, the lines
  it logged, and the pages it asked the browser to open, each with the \<open>new\<close> argument.
\<close>

record world =
  requested :: "string list"
  logged :: "(level \<times> string) list"
  opened :: "(string \<times> int) list"




subsection \<open>The class \<open>Uniref\<close>\<close>

text \<open>
  The instance: the arguments \<open>__init__\<close> hands to the base class \<open>calour.Database\<close>
  (which is outside this repository, as is the experiment \<open>exp\<close>, never read here) and
  the attribute \<open>uniref_url\<close> it sets.
\<close>

record uniref =
  database_name :: string
  methods :: "string list"
  uniref_url :: string

definition init :: "world \<Rightarrow> uniref \<times> world" where
  "init w =
     (\<lparr>database_name = ''redbiom'', methods = [''get''],
       uniref_url = ''https://rest.uniprot.org/uniref/''\<rparr>,
      w\<lparr>logged := logged w @ [(DEBUG, ''uniref calour database interface initialized'')]\<rparr>)"

text \<open>The detail dictionary \<open>{'annotationtype': 'other'}\<close> of every entry but the first.\<close>

definition other_detail :: pyval where
  "other_detail = PDict [(''annotationtype'', PStr ''other'')]"

text \<open>The first entry, \<open>({'unirefid': feature, 'annotationtype': 'other'}, feature)\<close>.\<close>

definition feature_entry :: "string \<Rightarrow> pyval" where
  "feature_entry feature =
     PTuple [PDict [(''unirefid'', PStr feature), (''annotationtype'', PStr ''other'')],
             PStr feature]"

text \<open>
  The loop \<open>for corg in cres['organisms']\<close> (lines 76-77) over the elements already
  taken from the iterable, with \<open>shortdesc\<close> as accumulator: each organism appends a tuple.
\<close>

primrec organisms_loop :: "(pyval \<Rightarrow> string) \<Rightarrow> pyval list \<Rightarrow> pyval list \<Rightarrow> error + pyval list" where
  "organisms_loop str_of [] shortdesc = Inr shortdesc"
| "organisms_loop str_of (corg # rest) shortdesc =
     (case getitem corg ''scientificName'' of
        Inl e \<Rightarrow> Inl e
      | Inr name \<Rightarrow>
          (case format_s str_of ''organism: '' name of
             Inl e \<Rightarrow> Inl e
           | Inr summary \<Rightarrow>
               organisms_loop str_of rest
                 (shortdesc @ [PTuple [other_detail, PStr summary]])))"

text \<open>
  The body of \<open>for cres in res\<close> (lines 74-77) for one record: the name entry, a list of
  two elements, then the organisms if the record has the key.
\<close>

definition record_body :: "(pyval \<Rightarrow> string) \<Rightarrow> pyval \<Rightarrow> pyval list \<Rightarrow> error + pyval list" where
  "record_body str_of cres shortdesc =
     (case getitem cres ''name'' of
        Inl e \<Rightarrow> Inl e
      | Inr name \<Rightarrow>
          (case format_s str_of ''name: '' name of
             Inl e \<Rightarrow> Inl e
           | Inr summary \<Rightarrow>
               (let shortdesc1 = shortdesc @ [PList [other_detail, PStr summary]] in
                case contains cres ''organisms'' of
                  Inl e \<Rightarrow> Inl e
                | Inr has_organisms \<Rightarrow>
                    if has_organisms then
                      (case getitem cres ''organisms'' of
                         Inl e \<Rightarrow> Inl e
                       | Inr organisms \<Rightarrow>
                           (case iter organisms of
                              Inl e \<Rightarrow> Inl e
                            | Inr corgs \<Rightarrow> organisms_loop str_of corgs shortdesc1))
                    else Inr shortdesc1)))"

primrec results_loop :: "(pyval \<Rightarrow> string) \<Rightarrow> pyval list \<Rightarrow> pyval list \<Rightarrow> error + pyval list" where
  "results_loop str_of [] shortdesc = Inr shortdesc"
| "results_loop str_of (cres # rest) shortdesc =
     (case record_body str_of cres shortdesc of
        Inl e \<Rightarrow> Inl e
      | Inr shortdesc1 \<Rightarrow> results_loop str_of rest shortdesc1)"

text \<open>
  \<open>get_seq_annotation_strings\<close> (lines 65-78). \<open>requests_get\<close> is \<open>requests.get\<close>:
  the response to a URL, or the exception of a transport failure. On a status other than
  200 the message is formatted from \<open>res.code\<close> twice, for the warning (line 69) and for
  the entry (line 70); an exception leaves the function before anything later happens.
\<close>

definition get_seq_annotation_strings ::
  "(string \<Rightarrow> error + response) \<Rightarrow> (pyval \<Rightarrow> string) \<Rightarrow> uniref \<Rightarrow> string \<Rightarrow> world
     \<Rightarrow> (error + pyval list) \<times> world" where
  "get_seq_annotation_strings requests_get str_of self feature w =
     (let shortdesc = [feature_entry feature];
          url = uniref_url self @ ''search?query='' @ feature;
          w1 = w\<lparr>requested := requested w @ [url]\<rparr>
      in case requests_get url of
           Inl e \<Rightarrow> (Inl e, w1)
         | Inr res \<Rightarrow>
             if status_code res \<noteq> 200 then
               (case getattr res ''code'' of
                  Inl e \<Rightarrow> (Inl e, w1)
                | Inr code \<Rightarrow>
                    (case format_d ''uniref query failed. code '' code of
                       Inl e \<Rightarrow> (Inl e, w1)
                     | Inr msg \<Rightarrow>
                         (let w2 = w1\<lparr>logged := logged w1 @ [(WARNING, msg)]\<rparr>
                          in case getattr res ''code'' of
                               Inl e \<Rightarrow> (Inl e, w2)
                             | Inr code2 \<Rightarrow>
                                 (case format_d ''uniref query failed. code '' code2 of
                                    Inl e \<Rightarrow> (Inl e, w2)
                                  | Inr summary \<Rightarrow>
                                      (Inr (shortdesc @ [PTuple [other_detail, PStr summary]]),
                                       w2)))))
             else
               (case json res of
                  Inl e \<Rightarrow> (Inl e, w1)
                | Inr body \<Rightarrow>
                    (case getitem body ''results'' of
                       Inl e \<Rightarrow> (Inl e, w1)
                     | Inr results \<Rightarrow>
                         (case iter results of
                            Inl e \<Rightarrow> (Inl e, w1)
                          | Inr cress \<Rightarrow> (results_loop str_of cress shortdesc, w1)))))"

text \<open>
  \<open>show_annotation_info\<close> (lines 92-93). \<open>webbrowser_open\<close> is \<open>webbrowser.open\<close>
  with its \<open>new\<close> argument: whether a browser was launched, or the exception it raised.
  The method has no \<open>return\<close>: it gives \<open>None\<close>, here \<open>()\<close>.
\<close>

definition show_annotation_info ::
  "(string \<Rightarrow> int \<Rightarrow> error + bool) \<Rightarrow> pyval \<Rightarrow> world \<Rightarrow> (error + unit) \<times> world" where
  "show_annotation_info webbrowser_open annotation w =
     (let uniref_base = ''https://www.uniprot.org/uniref/''
      in case str_add uniref_base annotation of
           Inl e \<Rightarrow> (Inl e, w)
         | Inr url \<Rightarrow>
             (let w1 = w\<lparr>opened := opened w @ [(url, 2)]\<rparr>
              in case webbrowser_open url 2 of
                   Inl e \<Rightarrow> (Inl e, w1)
                 | Inr launched \<Rightarrow> (Inr (), w1)))"

subsection \<open>Sample data\<close>

definition no_world :: world where
  "no_world = \<lparr>requested = [], logged = [], opened = []\<rparr>"

text \<open>Responses of the class \<open>requests.Response\<close>: two failures and a success.\<close>

definition not_found :: response where
  "not_found =
     \<lparr>status_code = 404, json = Inr (PDict [(''messages'', PList [PStr ''Not Found''])]),
      attrs = [(''reason'', PStr ''Not Found''), (''ok'', PBool False)]\<rparr>"

definition unavailable :: response where
  "unavailable =
     \<lparr>status_code = 503, json = Inl (Raised ''JSONDecodeError''),
      attrs = [(''reason'', PStr ''Service Unavailable''), (''ok'', PBool False)]\<rparr>"

definition found :: "pyval \<Rightarrow> response" where
  "found body =
     \<lparr>status_code = 200, json = Inr body,
      attrs = [(''reason'', PStr ''OK''), (''ok'', PBool True)]\<rparr>"

definition one_cluster :: pyval where
  "one_cluster =
     PDict [(''results'',
       PList [PDict [(''id'', PStr ''UniRef90_A0A174LDE8''),
                     (''name'', PStr ''Cluster: ABC transporter''),
                     (''entryType'', PStr ''UniRef90''),
                     (''organisms'',
                        PList [PDict [(''scientificName'', PStr ''Bacteroides caccae''),
                                      (''taxonId'', PInt 47678)]])]])]"

definition no_clusters :: pyval where
  "no_clusters = PDict [(''results'', PList [])]"

definition cluster_without_organisms :: pyval where
  "cluster_without_organisms =
     PDict [(''id'', PStr ''UniRef90_A0A174LDE8''), (''name'', PStr ''Cluster: ABC transporter'')]"

text \<open>
  Collaborators: a network that fails at one URL and answers every other one, a network
  that fails everywhere, a browser that always launches, and a browser that launches for
  one URL and one \<open>new\<close> and raises for every other call.
\<close>

definition unreachable_at :: "string \<Rightarrow> string \<Rightarrow> error + response" where
  "unreachable_at u url =
     (if url = u then Inl (Raised ''ConnectionError'') else Inr (found one_cluster))"

definition refused :: "string \<Rightarrow> error + response" where
  "refused url = Inl (Raised ''ConnectionError'')"



subsection \<open>The body the code expects\<close>

text \<open>
  The shape the three subscripts and two loops of lines 72-77 go through without an
  exception: a dictionary with a list under \<open>results\<close>; each record a dictionary with a
  string under \<open>name\<close> and, if it has the key \<open>organisms\<close>, a list under it; each
  organism a dictionary with a string under \<open>scientificName\<close>.
\<close>

definition well_formed_organism :: "pyval \<Rightarrow> bool" where
  "well_formed_organism corg =
     (case corg of
        PDict items \<Rightarrow>
          (case map_of items ''scientificName'' of Some (PStr s) \<Rightarrow> True | _ \<Rightarrow> False)
      | _ \<Rightarrow> False)"

definition well_formed_record :: "pyval \<Rightarrow> bool" where
  "well_formed_record cres =
     (case cres of
        PDict items \<Rightarrow>
          (case map_of items ''name'' of
             Some (PStr n) \<Rightarrow>
               (case map_of items ''organisms'' of
                  None \<Rightarrow> True
                | Some (PList corgs) \<Rightarrow> list_all well_formed_organism corgs
                | Some _ \<Rightarrow> False)
           | _ \<Rightarrow> False)
      | _ \<Rightarrow> False)"

definition well_formed_body :: "pyval \<Rightarrow> bool" where
  "well_formed_body body =
     (case body of
        PDict items \<Rightarrow>
          (case map_of items ''results'' of
             Some (PList cress) \<Rightarrow> list_all well_formed_record cress
           | _ \<Rightarrow> False)
      | _ \<Rightarrow> False)"

section \<open>Properties\<close>

subsection \<open>The loops only append\<close>

lemma map_of_key: "map_of items key = Some v \<Longrightarrow> key \<in> fst ` set items"
  by (induction items) (auto split: if_splits)

lemma decimal_examples: "decimal 404 = ''404''" "decimal (-7) = ''-7''" "decimal 0 = ''0''"
  by (simp_all add: decimal_def decimal_nat.simps)

text \<open>Each organism appends one tuple whose summary starts with \<open>organism: \<close>.\<close>

lemma organisms_loop_appends:
  "organisms_loop str_of corgs shortdesc = Inr xs \<Longrightarrow>
     \<exists>orgs. length orgs = length corgs \<and>
       xs = shortdesc @ map (\<lambda>t. PTuple [other_detail, PStr (''organism: '' @ t)]) orgs"
proof (induction corgs arbitrary: shortdesc)
  case Nil
  then show ?case by simp
next
  case (Cons corg rest)
  from Cons.prems obtain name t where
    t: "format_s str_of ''organism: '' name = Inr t"
    and rec: "organisms_loop str_of rest (shortdesc @ [PTuple [other_detail, PStr t]]) = Inr xs"
    by (auto split: sum.splits)
  from t obtain o1 where o1: "t = ''organism: '' @ o1"
    by (auto simp: format_s_def split: sum.splits)
  from Cons.IH [OF rec] obtain orgs where
    "length orgs = length rest"
    "xs = (shortdesc @ [PTuple [other_detail, PStr t]])
          @ map (\<lambda>t. PTuple [other_detail, PStr (''organism: '' @ t)]) orgs"
    by blast
  then have "length (o1 # orgs) = length (corg # rest) \<and>
     xs = shortdesc @ map (\<lambda>t. PTuple [other_detail, PStr (''organism: '' @ t)]) (o1 # orgs)"
    using o1 by simp
  then show ?case by blast
qed

text \<open>One record appends its name entry, a list, and then tuples only.\<close>

lemma record_body_appends:
  assumes "record_body str_of cres shortdesc = Inr xs"
  shows "\<exists>n orgs. xs = shortdesc @ PList [other_detail, PStr (''name: '' @ n)]
                  # map (\<lambda>t. PTuple [other_detail, PStr (''organism: '' @ t)]) orgs"
proof -
  from assms obtain name s where s: "format_s str_of ''name: '' name = Inr s"
    and rest: "(case contains cres ''organisms'' of
                  Inl e \<Rightarrow> Inl e
                | Inr has_organisms \<Rightarrow>
                    if has_organisms then
                      (case getitem cres ''organisms'' of
                         Inl e \<Rightarrow> Inl e
                       | Inr organisms \<Rightarrow>
                           (case iter organisms of
                              Inl e \<Rightarrow> Inl e
                            | Inr corgs \<Rightarrow>
                                organisms_loop str_of corgs
                                  (shortdesc @ [PList [other_detail, PStr s]])))
                    else Inr (shortdesc @ [PList [other_detail, PStr s]])) = Inr xs"
    by (auto simp: record_body_def Let_def split: sum.splits)
  from s obtain n where n: "s = ''name: '' @ n"
    by (auto simp: format_s_def split: sum.splits)
  show ?thesis
  proof (cases "contains cres ''organisms'' = Inr True")
    case True
    with rest obtain corgs where
      "organisms_loop str_of corgs (shortdesc @ [PList [other_detail, PStr s]]) = Inr xs"
      by (auto split: sum.splits)
    from organisms_loop_appends [OF this] n show ?thesis by auto
  next
    case False
    with rest have "xs = shortdesc @ [PList [other_detail, PStr s]]"
      by (auto split: sum.splits if_splits)
    with n have "xs = shortdesc @ PList [other_detail, PStr (''name: '' @ n)]
                  # map (\<lambda>t. PTuple [other_detail, PStr (''organism: '' @ t)]) []"
      by simp
    then show ?thesis by blast
  qed
qed

lemma results_loop_appends:
  "results_loop str_of cress shortdesc = Inr xs \<Longrightarrow>
     \<exists>groups. length groups = length cress \<and>
       xs = shortdesc @ concat (map (\<lambda>g. PList [other_detail, PStr (''name: '' @ fst g)]
                  # map (\<lambda>t. PTuple [other_detail, PStr (''organism: '' @ t)]) (snd g)) groups)"
proof (induction cress arbitrary: shortdesc)
  case Nil
  then show ?case by simp
next
  case (Cons cres rest)
  from Cons.prems obtain sd1 where
    b: "record_body str_of cres shortdesc = Inr sd1"
    and r: "results_loop str_of rest sd1 = Inr xs"
    by (auto split: sum.splits)
  from record_body_appends [OF b] obtain n orgs where
    sd1: "sd1 = shortdesc @ PList [other_detail, PStr (''name: '' @ n)]
                  # map (\<lambda>t. PTuple [other_detail, PStr (''organism: '' @ t)]) orgs"
    by blast
  from Cons.IH [OF r] obtain groups where
    g: "length groups = length rest"
    "xs = sd1 @ concat (map (\<lambda>g. PList [other_detail, PStr (''name: '' @ fst g)]
                  # map (\<lambda>t. PTuple [other_detail, PStr (''organism: '' @ t)]) (snd g)) groups)"
    by blast
  have "length ((n, orgs) # groups) = length (cres # rest) \<and>
     xs = shortdesc @ concat (map (\<lambda>g. PList [other_detail, PStr (''name: '' @ fst g)]
                  # map (\<lambda>t. PTuple [other_detail, PStr (''organism: '' @ t)]) (snd g))
                  ((n, orgs) # groups))"
    using g sd1 by simp
  then show ?case by blast
qed

subsection \<open>A status other than 200\<close>

text \<open>
  Line 69 reads \<open>res.code\<close> to format the warning. A \<open>requests.Response\<close> has
  \<open>status_code\<close> and no \<open>code\<close>, so the read raises \<open>AttributeError\<close> before the
  warning is logged and before the failure entry is appended: the exception leaves the
  method, and the caller gets no list.
\<close>

lemma status_not_200_raises:
  assumes "requests_get (uniref_url self @ ''search?query='' @ feature) = Inr res"
    and "status_code res \<noteq> 200"
    and "requests_Response res"
  shows "get_seq_annotation_strings requests_get str_of self feature w =
           (Inl (AttributeError ''code''),
            w\<lparr>requested := requested w @ [uniref_url self @ ''search?query='' @ feature]\<rparr>)"
  using assms
  by (simp add: get_seq_annotation_strings_def getattr_def requests_Response_def Let_def)

text \<open>
  Were the status readable under the name \<open>code\<close>, lines 69-71 would log the warning and
  return the two entries.
\<close>

lemma with_code_attribute:
  assumes "requests_get (uniref_url self @ ''search?query='' @ feature) = Inr res"
    and "status_code res \<noteq> 200"
    and "map_of (attrs res) ''code'' = Some (PInt c)"
  shows "get_seq_annotation_strings requests_get str_of self feature w =
           (Inr [feature_entry feature,
                 PTuple [other_detail, PStr (''uniref query failed. code '' @ decimal c)]],
            w\<lparr>requested := requested w @ [uniref_url self @ ''search?query='' @ feature],
              logged := logged w @ [(WARNING, ''uniref query failed. code '' @ decimal c)]\<rparr>)"
  using assms
  by (simp add: get_seq_annotation_strings_def getattr_def format_d_def Let_def)

subsection \<open>Every list the method returns\<close>

lemma returned_entries:
  assumes "fst (get_seq_annotation_strings requests_get str_of self feature w) = Inr xs"
  shows "\<exists>fails groups. length fails \<le> 1 \<and>
           xs = feature_entry feature
                # map (\<lambda>m. PTuple [other_detail, PStr (''uniref query failed. code '' @ m)]) fails
                @ concat (map (\<lambda>g. PList [other_detail, PStr (''name: '' @ fst g)]
                    # map (\<lambda>t. PTuple [other_detail, PStr (''organism: '' @ t)]) (snd g)) groups)"
proof -
  let ?url = "uniref_url self @ ''search?query='' @ feature"
  let ?F = "\<lambda>m. PTuple [other_detail, PStr (''uniref query failed. code '' @ m)]"
  let ?G = "\<lambda>g. PList [other_detail, PStr (''name: '' @ fst g)]
                    # map (\<lambda>t. PTuple [other_detail, PStr (''organism: '' @ t)]) (snd g)"
  from assms obtain res where res: "requests_get ?url = Inr res"
    by (auto simp: get_seq_annotation_strings_def Let_def split: sum.splits)
  show ?thesis
  proof (cases "status_code res = 200")
    case True
    with assms res obtain cress where
      "results_loop str_of cress [feature_entry feature] = Inr xs"
      by (auto simp: get_seq_annotation_strings_def Let_def split: sum.splits)
    from results_loop_appends [OF this] obtain groups where
      "xs = [feature_entry feature] @ concat (map ?G groups)" by blast
    then have "length ([]::string list) \<le> 1 \<and>
       xs = feature_entry feature # map ?F [] @ concat (map ?G groups)" by simp
    then show ?thesis by blast
  next
    case False
    with assms res obtain code s where
      s: "format_d ''uniref query failed. code '' code = Inr s"
      and xs: "xs = [feature_entry feature, PTuple [other_detail, PStr s]]"
      by (auto simp: get_seq_annotation_strings_def Let_def split: sum.splits)
    from s obtain m where "s = ''uniref query failed. code '' @ m"
      by (auto simp: format_d_def split: sum.splits pyval.splits)
    with xs have "length [m] \<le> 1 \<and>
       xs = feature_entry feature # map ?F [m] @ concat (map ?G [])" by simp
    then show ?thesis by blast
  qed
qed


subsection \<open>A 200 response with a body of the expected shape gives a list\<close>

lemma well_formed_organismE:
  assumes "well_formed_organism corg"
  obtains items s where "corg = PDict items" "map_of items ''scientificName'' = Some (PStr s)"
proof -
  from assms obtain items where items: "corg = PDict items"
    by (cases corg) (simp_all add: well_formed_organism_def)
  with assms obtain v where v: "map_of items ''scientificName'' = Some v"
    by (cases "map_of items ''scientificName''") (simp_all add: well_formed_organism_def)
  with assms items obtain s where "v = PStr s"
    by (cases v) (simp_all add: well_formed_organism_def)
  with items v that show thesis by simp
qed

lemma organisms_loop_returns:
  "list_all well_formed_organism corgs \<Longrightarrow> \<exists>xs. organisms_loop str_of corgs shortdesc = Inr xs"
proof (induction corgs arbitrary: shortdesc)
  case Nil
  then show ?case by simp
next
  case (Cons corg rest)
  from Cons.prems have corg: "well_formed_organism corg"
    and rest: "list_all well_formed_organism rest"
    by simp_all
  from corg obtain items s where "corg = PDict items" "map_of items ''scientificName'' = Some (PStr s)"
    by (rule well_formed_organismE)
  then have "organisms_loop str_of (corg # rest) shortdesc =
      organisms_loop str_of rest
        (shortdesc @ [PTuple [other_detail, PStr (''organism: '' @ s)]])"
    by (simp add: getitem_def format_s_def py_str_def)
  with Cons.IH [OF rest] show ?case by simp
qed

lemma record_body_returns:
  assumes "well_formed_record cres"
  shows "\<exists>xs. record_body str_of cres shortdesc = Inr xs"
proof -
  from assms obtain items where cres: "cres = PDict items"
    by (cases cres) (simp_all add: well_formed_record_def)
  with assms obtain name where name: "map_of items ''name'' = Some name"
    by (cases "map_of items ''name''") (simp_all add: well_formed_record_def)
  with assms cres obtain n where n: "map_of items ''name'' = Some (PStr n)"
    by (cases name) (simp_all add: well_formed_record_def)
  show ?thesis
  proof (cases "map_of items ''organisms''")
    case None
    then have "''organisms'' \<notin> fst ` set items" by (simp add: map_of_eq_None_iff)
    with cres n show ?thesis
      by (simp add: record_body_def getitem_def contains_def format_s_def py_str_def)
  next
    case (Some organisms)
    with assms cres n obtain corgs where corgs: "organisms = PList corgs"
      and wf: "list_all well_formed_organism corgs"
      by (cases organisms) (simp_all add: well_formed_record_def)
    from Some have "''organisms'' \<in> fst ` set items" by (rule map_of_key)
    with cres n Some corgs organisms_loop_returns [OF wf] show ?thesis
      by (simp add: record_body_def getitem_def contains_def format_s_def py_str_def iter_def)
  qed
qed

lemma results_loop_returns:
  "list_all well_formed_record cress \<Longrightarrow> \<exists>xs. results_loop str_of cress shortdesc = Inr xs"
proof (induction cress arbitrary: shortdesc)
  case Nil
  then show ?case by simp
next
  case (Cons cres rest)
  from Cons.prems have "well_formed_record cres" and rest: "list_all well_formed_record rest"
    by simp_all
  from record_body_returns [OF this(1)] obtain sd1 where
    "record_body str_of cres shortdesc = Inr sd1" by blast
  with Cons.IH [OF rest] show ?case by simp
qed

lemma well_formed_response_returns:
  assumes "requests_get (uniref_url self @ ''search?query='' @ feature) = Inr res"
    and "status_code res = 200"
    and "json res = Inr body"
    and "well_formed_body body"
  shows "\<exists>xs. fst (get_seq_annotation_strings requests_get str_of self feature w) = Inr xs"
proof -
  from assms(4) obtain items where items: "body = PDict items"
    by (cases body) (simp_all add: well_formed_body_def)
  with assms(4) obtain results where results: "map_of items ''results'' = Some results"
    by (cases "map_of items ''results''") (simp_all add: well_formed_body_def)
  with assms(4) items obtain cress where "results = PList cress"
    and "list_all well_formed_record cress"
    by (cases results) (simp_all add: well_formed_body_def)
  with assms(1-3) items results results_loop_returns [OF this(2)] show ?thesis
    by (simp add: get_seq_annotation_strings_def getitem_def iter_def)
qed

lemma sample_bodies_well_formed: "well_formed_body one_cluster" "well_formed_body no_clusters"
  by (simp_all add: well_formed_body_def well_formed_record_def well_formed_organism_def
      one_cluster_def no_clusters_def)

section \<open>The claims\<close>

text \<open>
  C1. On a response whose status is not 200 the method should log a warning, append one
  failure entry and return the two entries without raising. The code does not: at a 404
  answer of the class \<open>requests.Response\<close> the method raises \<open>AttributeError\<close> for
  \<open>code\<close>, it returns no list, and nothing is logged.
\<close>

theorem status_404_raises:
  "get_seq_annotation_strings (\<lambda>url. Inr not_found) (\<lambda>v. []) (fst (init no_world))
       ''UniRef90_A0A174LDE8'' no_world =
     (Inl (AttributeError ''code''),
      \<lparr>requested = [''https://rest.uniprot.org/uniref/search?query=UniRef90_A0A174LDE8''],
       logged = [], opened = []\<rparr>)"
  by (simp add: status_not_200_raises requests_Response_def not_found_def init_def no_world_def)

text \<open>
  C2. For every response, a failure status included, the returned sequence should hold at
  least the identifier entry. At a 503 answer the method returns no sequence at all: the
  read of \<open>res.code\<close> on line 69 raises.
\<close>

theorem status_503_returns_no_sequence:
  "\<not> (\<exists>xs. fst (get_seq_annotation_strings (\<lambda>url. Inr unavailable) (\<lambda>v. [])
                  (fst (init no_world)) ''UniRef90_A0A174LDE8'' no_world) = Inr xs)"
  by (simp add: status_not_200_raises requests_Response_def unavailable_def)

text \<open>
  C3. Whatever the remote service answers, the first entry of a returned list is the tuple
  \<open>({'unirefid': f, 'annotationtype': 'other'}, f)\<close>, with the identifier \<open>f\<close> itself
  as summary.
\<close>

theorem first_entry:
  assumes "fst (get_seq_annotation_strings requests_get str_of self feature w) = Inr xs"
  shows "\<exists>rest. xs = PTuple [PDict [(''unirefid'', PStr feature),
                                     (''annotationtype'', PStr ''other'')], PStr feature] # rest"
  using returned_entries [OF assms] by (auto simp: feature_entry_def)

theorem first_entry_witness:
  "fst (get_seq_annotation_strings (\<lambda>url. Inr (found one_cluster)) (\<lambda>v. [])
          (fst (init no_world)) ''UniRef90_A0A174LDE8'' no_world)
     = Inr [PTuple [PDict [(''unirefid'', PStr ''UniRef90_A0A174LDE8''),
                           (''annotationtype'', PStr ''other'')], PStr ''UniRef90_A0A174LDE8''],
            PList [PDict [(''annotationtype'', PStr ''other'')],
                   PStr ''name: Cluster: ABC transporter''],
            PTuple [PDict [(''annotationtype'', PStr ''other'')],
                    PStr ''organism: Bacteroides caccae'']]
   \<and> (\<exists>rest. [PTuple [PDict [(''unirefid'', PStr ''UniRef90_A0A174LDE8''),
                           (''annotationtype'', PStr ''other'')], PStr ''UniRef90_A0A174LDE8''],
            PList [PDict [(''annotationtype'', PStr ''other'')],
                   PStr ''name: Cluster: ABC transporter''],
            PTuple [PDict [(''annotationtype'', PStr ''other'')],
                    PStr ''organism: Bacteroides caccae'']]
        = PTuple [PDict [(''unirefid'', PStr ''UniRef90_A0A174LDE8''),
                         (''annotationtype'', PStr ''other'')], PStr ''UniRef90_A0A174LDE8'']
          # rest)"
proof -
  have h: "fst (get_seq_annotation_strings (\<lambda>url. Inr (found one_cluster)) (\<lambda>v. [])
                 (fst (init no_world)) ''UniRef90_A0A174LDE8'' no_world)
     = Inr [PTuple [PDict [(''unirefid'', PStr ''UniRef90_A0A174LDE8''),
                           (''annotationtype'', PStr ''other'')], PStr ''UniRef90_A0A174LDE8''],
            PList [PDict [(''annotationtype'', PStr ''other'')],
                   PStr ''name: Cluster: ABC transporter''],
            PTuple [PDict [(''annotationtype'', PStr ''other'')],
                    PStr ''organism: Bacteroides caccae'']]"
    by (simp add: get_seq_annotation_strings_def found_def one_cluster_def init_def
        getitem_def iter_def contains_def record_body_def format_s_def py_str_def
        feature_entry_def other_detail_def)
  from first_entry [OF h] h show ?thesis by simp
qed





text \<open>
  C6. A result record of a decoded body that has a name and no key \<open>organisms\<close> makes
  the loop body append its name entry and nothing else, without an error: no organism
  entry comes from a record without the key.
\<close>

theorem no_organisms_key:
  assumes "map_of items ''name'' = Some name"
    and "\<not> is_tuple name"
    and "map_of items ''organisms'' = None"
  shows "record_body str_of (PDict items) shortdesc =
           Inr (shortdesc @ [PList [other_detail, PStr (''name: '' @ py_str str_of name)]])"
proof -
  from assms(3) have "''organisms'' \<notin> fst ` set items"
    by (simp add: map_of_eq_None_iff)
  moreover from assms(2) have "percent_arg name = Inr name"
    by (cases name) (simp_all add: is_tuple_def)
  ultimately show ?thesis using assms(1)
    by (simp add: record_body_def getitem_def contains_def format_s_def)
qed

theorem no_organisms_key_witness:
  "record_body (\<lambda>v. []) cluster_without_organisms [feature_entry ''UniRef90_A0A174LDE8''] =
     Inr [feature_entry ''UniRef90_A0A174LDE8'',
          PList [other_detail, PStr ''name: Cluster: ABC transporter'']]"
  using no_organisms_key [of
      "[(''id'', PStr ''UniRef90_A0A174LDE8''), (''name'', PStr ''Cluster: ABC transporter'')]"
      "PStr ''Cluster: ABC transporter''" "\<lambda>v. []" "[feature_entry ''UniRef90_A0A174LDE8'']"]
  by (simp add: cluster_without_organisms_def is_tuple_def py_str_def)

text \<open>
  C7. The method sends exactly one GET, to the URL that is the base set by the
  constructor, then \<open>search?query=\<close>, then the identifier as it is, with no encoding:
  that URL is the one request recorded, a failure of \<open>requests.get\<close> at that URL is
  the failure of the method, and what \<open>requests.get\<close> would answer at any other URL
  changes nothing.
\<close>

theorem request_url:
  "requested (snd (get_seq_annotation_strings requests_get str_of (fst (init w0)) feature w)) =
     requested w @ [''https://rest.uniprot.org/uniref/'' @ ''search?query='' @ feature]
   \<and> (requests_get (''https://rest.uniprot.org/uniref/'' @ ''search?query='' @ feature) = Inl e
        \<longrightarrow> get_seq_annotation_strings requests_get str_of (fst (init w0)) feature w =
              (Inl e,
               w\<lparr>requested := requested w
                    @ [''https://rest.uniprot.org/uniref/'' @ ''search?query='' @ feature]\<rparr>))
   \<and> (other_get (''https://rest.uniprot.org/uniref/'' @ ''search?query='' @ feature) =
          requests_get (''https://rest.uniprot.org/uniref/'' @ ''search?query='' @ feature)
        \<longrightarrow> get_seq_annotation_strings other_get str_of (fst (init w0)) feature w =
              get_seq_annotation_strings requests_get str_of (fst (init w0)) feature w)"
proof (intro conjI impI)
  show "requested (snd (get_seq_annotation_strings requests_get str_of (fst (init w0)) feature w))
      = requested w @ [''https://rest.uniprot.org/uniref/'' @ ''search?query='' @ feature]"
    by (simp add: get_seq_annotation_strings_def init_def Let_def split: sum.splits)
next
  assume "requests_get (''https://rest.uniprot.org/uniref/'' @ ''search?query='' @ feature) = Inl e"
  then show "get_seq_annotation_strings requests_get str_of (fst (init w0)) feature w =
              (Inl e,
               w\<lparr>requested := requested w
                    @ [''https://rest.uniprot.org/uniref/'' @ ''search?query='' @ feature]\<rparr>)"
    by (simp add: get_seq_annotation_strings_def init_def)
next
  assume "other_get (''https://rest.uniprot.org/uniref/'' @ ''search?query='' @ feature) =
          requests_get (''https://rest.uniprot.org/uniref/'' @ ''search?query='' @ feature)"
  then show "get_seq_annotation_strings other_get str_of (fst (init w0)) feature w =
              get_seq_annotation_strings requests_get str_of (fst (init w0)) feature w"
    by (simp add: get_seq_annotation_strings_def init_def)
qed

theorem request_url_witness:
  "get_seq_annotation_strings
       (unreachable_at ''https://rest.uniprot.org/uniref/search?query=UniRef90 A&B/c'')
       (\<lambda>v. []) (fst (init no_world)) ''UniRef90 A&B/c'' no_world =
     (Inl (Raised ''ConnectionError''),
      \<lparr>requested = [''https://rest.uniprot.org/uniref/search?query=UniRef90 A&B/c''],
       logged = [], opened = []\<rparr>)
   \<and> get_seq_annotation_strings refused (\<lambda>v. []) (fst (init no_world)) ''UniRef90 A&B/c'' no_world =
     get_seq_annotation_strings
       (unreachable_at ''https://rest.uniprot.org/uniref/search?query=UniRef90 A&B/c'')
       (\<lambda>v. []) (fst (init no_world)) ''UniRef90 A&B/c'' no_world"
  using request_url [where requests_get =
        "unreachable_at ''https://rest.uniprot.org/uniref/search?query=UniRef90 A&B/c''"
      and other_get = refused and str_of = "\<lambda>v. []" and ?w0.0 = no_world
      and feature = "''UniRef90 A&B/c''" and w = no_world and e = "Raised ''ConnectionError''"]
  by (simp add: unreachable_at_def refused_def no_world_def)




text \<open>
  C9. In every returned list the identifier entry, the failure entry and the organism
  entries are tuples of two elements, and the name entry of each record is a list of two
  elements: the list is the identifier tuple, then at most one failure tuple, then for
  each record one name list followed by its organism tuples.
\<close>

theorem entry_shapes:
  assumes "fst (get_seq_annotation_strings requests_get str_of self feature w) = Inr xs"
  shows "\<exists>failures clusters. length failures \<le> 1 \<and>
           xs = PTuple [PDict [(''unirefid'', PStr feature), (''annotationtype'', PStr ''other'')],
                        PStr feature]
                # map (\<lambda>m. PTuple [PDict [(''annotationtype'', PStr ''other'')],
                                      PStr (''uniref query failed. code '' @ m)]) failures
                @ concat (map (\<lambda>c. PList [PDict [(''annotationtype'', PStr ''other'')],
                                             PStr (''name: '' @ fst c)]
                                # map (\<lambda>t. PTuple [PDict [(''annotationtype'', PStr ''other'')],
                                                      PStr (''organism: '' @ t)]) (snd c))
                            clusters)"
  using returned_entries [OF assms]
  by (simp add: feature_entry_def other_detail_def)

theorem entry_shapes_witness:
  "\<exists>failures clusters. length failures \<le> 1 \<and>
     [PTuple [PDict [(''unirefid'', PStr ''UniRef90_A0A174LDE8''),
                     (''annotationtype'', PStr ''other'')], PStr ''UniRef90_A0A174LDE8''],
      PList [PDict [(''annotationtype'', PStr ''other'')],
             PStr ''name: Cluster: ABC transporter''],
      PTuple [PDict [(''annotationtype'', PStr ''other'')],
              PStr ''organism: Bacteroides caccae'']]
     = PTuple [PDict [(''unirefid'', PStr ''UniRef90_A0A174LDE8''),
                      (''annotationtype'', PStr ''other'')], PStr ''UniRef90_A0A174LDE8'']
       # map (\<lambda>m. PTuple [PDict [(''annotationtype'', PStr ''other'')],
                             PStr (''uniref query failed. code '' @ m)]) failures
       @ concat (map (\<lambda>c. PList [PDict [(''annotationtype'', PStr ''other'')],
                                    PStr (''name: '' @ fst c)]
                       # map (\<lambda>t. PTuple [PDict [(''annotationtype'', PStr ''other'')],
                                             PStr (''organism: '' @ t)]) (snd c))
                   clusters)"
proof -
  have h: "fst (get_seq_annotation_strings (\<lambda>url. Inr (found one_cluster)) (\<lambda>v. [])
                 (fst (init no_world)) ''UniRef90_A0A174LDE8'' no_world)
     = Inr [PTuple [PDict [(''unirefid'', PStr ''UniRef90_A0A174LDE8''),
                           (''annotationtype'', PStr ''other'')], PStr ''UniRef90_A0A174LDE8''],
            PList [PDict [(''annotationtype'', PStr ''other'')],
                   PStr ''name: Cluster: ABC transporter''],
            PTuple [PDict [(''annotationtype'', PStr ''other'')],
                    PStr ''organism: Bacteroides caccae'']]"
    by (simp add: get_seq_annotation_strings_def found_def one_cluster_def init_def
        getitem_def iter_def contains_def record_body_def format_s_def py_str_def
        feature_entry_def other_detail_def)
  show ?thesis by (rule entry_shapes [OF h])
qed

text \<open>
  C10. For an annotation that is not a string, such as the detail dictionary of an entry,
  \<open>show_annotation_info\<close> raises \<open>TypeError\<close> at the concatenation with the base: the
  value is not turned into a string and the browser is not called.
\<close>

theorem viewer_not_a_string:
  assumes "\<forall>s. annotation \<noteq> PStr s"
  shows "show_annotation_info webbrowser_open annotation w = (Inl TypeError, w)"
  using assms by (cases annotation) (simp_all add: show_annotation_info_def str_add_def)

theorem viewer_not_a_string_witness:
  "show_annotation_info (\<lambda>url new. Inr True)
      (PDict [(''unirefid'', PStr ''UniRef90_A0A174LDE8''), (''annotationtype'', PStr ''other'')])
      no_world = (Inl TypeError, no_world)"
  using viewer_not_a_string [of
      "PDict [(''unirefid'', PStr ''UniRef90_A0A174LDE8''), (''annotationtype'', PStr ''other'')]"
      "\<lambda>url new. Inr True" no_world]
  by simp

end
